theory Spec2Isabelle
  imports Main
begin

section \<open>Text primitives of the host language\<close>

text \<open>
  Descriptions are Python \<open>str\<close> values. They are modelled as \<open>string\<close>, one \<open>char\<close> per
  code point, for code points below 256; the character classes below are the ones Python 3
  uses on that range (\<open>str.isspace\<close>, \<open>\s\<close>, \<open>\d\<close>, \<open>\w\<close>, \<open>str.lower\<close>).
\<close>

datatype error = ValueError | IndexError

definition code :: "char \<Rightarrow> nat" where
  "code c = of_char c"

definition is_digit :: "char \<Rightarrow> bool" where
  "is_digit c = (48 \<le> code c \<and> code c \<le> 57)"

definition is_space :: "char \<Rightarrow> bool" where
  "is_space c = ((9 \<le> code c \<and> code c \<le> 13) \<or> (28 \<le> code c \<and> code c \<le> 32)
                  \<or> code c = 133 \<or> code c = 160)"

text \<open>The white space that \<open>int()\<close> strips: the ASCII blanks and the non-ASCII spaces.\<close>

definition is_int_space :: "char \<Rightarrow> bool" where
  "is_int_space c = ((9 \<le> code c \<and> code c \<le> 13) \<or> code c = 32
                      \<or> code c = 133 \<or> code c = 160)"

definition strip_int :: "string \<Rightarrow> string" where
  "strip_int s = rev (dropWhile is_int_space (rev (dropWhile is_int_space s)))"

definition digit_val :: "char \<Rightarrow> int" where
  "digit_val c = int (code c) - 48"

text \<open>
  The digits of a decimal literal: a digit first, then digits with single underscores between
  them. The accumulator is the value read so far.
\<close>

fun int_digits :: "int \<Rightarrow> string \<Rightarrow> int option" where
  "int_digits acc [] = Some acc"
| "int_digits acc [c] = (if is_digit c then Some (acc * 10 + digit_val c) else None)"
| "int_digits acc (c # d # cs) =
     (if is_digit c then int_digits (acc * 10 + digit_val c) (d # cs)
      else if c = CHR ''_'' \<and> is_digit d then int_digits acc (d # cs)
      else None)"

definition unsigned_int :: "string \<Rightarrow> int option" where
  "unsigned_int s = (case s of [] \<Rightarrow> None
                     | c # cs \<Rightarrow> if is_digit c then int_digits 0 s else None)"

text \<open>\<open>int(s)\<close> for a string: \<open>ValueError\<close> unless \<open>s\<close> is a decimal literal.\<close>

definition py_int :: "string \<Rightarrow> error + int" where
  "py_int s =
     (case strip_int s of
        [] \<Rightarrow> Inl ValueError
      | c # cs \<Rightarrow>
          (if c = CHR ''-'' then
             (case unsigned_int cs of None \<Rightarrow> Inl ValueError | Some n \<Rightarrow> Inr (- n))
           else if c = CHR ''+'' then
             (case unsigned_int cs of None \<Rightarrow> Inl ValueError | Some n \<Rightarrow> Inr n)
           else
             (case unsigned_int (c # cs) of None \<Rightarrow> Inl ValueError | Some n \<Rightarrow> Inr n)))"

text \<open>\<open>s.split(c)\<close> with a one-character separator: always at least one part.\<close>

fun split_on :: "char \<Rightarrow> string \<Rightarrow> string list" where
  "split_on c [] = [[]]"
| "split_on c (x # xs) =
     (if x = c then [] # split_on c xs
      else (case split_on c xs of
              [] \<Rightarrow> [[x]]
            | p # ps \<Rightarrow> (x # p) # ps))"

text \<open>\<open>xs[i]\<close> for a non-negative index.\<close>

definition index :: "'a list \<Rightarrow> nat \<Rightarrow> error + 'a" where
  "index xs i = (if i < length xs then Inr (xs ! i) else Inl IndexError)"


section \<open>Dates and times\<close>

text \<open>
  A naive \<open>datetime\<close>. Its fields are in range by construction (the constructor validates),
  so the model takes them as they are.
\<close>

record datetime =
  year :: nat
  month :: nat
  day :: nat
  hour :: nat
  minute :: nat
  second :: nat
  microsecond :: nat

text \<open>A \<open>datetime.time\<close>; naive times compare field by field, hour first.\<close>

type_synonym dtime = "nat \<times> nat \<times> nat \<times> nat"

fun time_le :: "dtime \<Rightarrow> dtime \<Rightarrow> bool" where
  "time_le (h, m, s, u) (h', m', s', u') =
     (h < h' \<or> (h = h' \<and> (m < m' \<or> (m = m' \<and> (s < s' \<or> (s = s' \<and> u \<le> u'))))))"

definition time_of :: "datetime \<Rightarrow> dtime" where
  "time_of d = (hour d, minute d, second d, microsecond d)"

text \<open>\<open>datetime.time(hours, minutes)\<close>: \<open>ValueError\<close> out of range.\<close>

definition dt_time :: "int \<Rightarrow> int \<Rightarrow> error + dtime" where
  "dt_time h m = (if 0 \<le> h \<and> h \<le> 23 \<and> 0 \<le> m \<and> m \<le> 59
                  then Inr (nat h, nat m, 0, 0) else Inl ValueError)"

text \<open>The weekday of a date, from its proleptic Gregorian ordinal, and its \<open>%A\<close> name.\<close>

definition is_leap :: "nat \<Rightarrow> bool" where
  "is_leap y = (y mod 4 = 0 \<and> (y mod 100 \<noteq> 0 \<or> y mod 400 = 0))"

definition days_before_year :: "nat \<Rightarrow> nat" where
  "days_before_year y =
     (let p = y - 1 in p * 365 + p div 4 + p div 400 - p div 100)"

definition days_before_month :: "nat \<Rightarrow> nat \<Rightarrow> nat" where
  "days_before_month y m =
     [0, 31, 59, 90, 120, 151, 181, 212, 243, 273, 304, 334] ! (m - 1)
       + (if m > 2 \<and> is_leap y then 1 else 0)"

definition ymd2ord :: "nat \<Rightarrow> nat \<Rightarrow> nat \<Rightarrow> nat" where
  "ymd2ord y m d = days_before_year y + days_before_month y m + d"

definition weekday :: "datetime \<Rightarrow> nat" where
  "weekday d = (ymd2ord (year d) (month d) (day d) + 6) mod 7"

definition day_names :: "string list" where
  "day_names = [''Monday'', ''Tuesday'', ''Wednesday'', ''Thursday'', ''Friday'',
                ''Saturday'', ''Sunday'']"

definition strftime_A :: "datetime \<Rightarrow> string" where
  "strftime_A d = day_names ! weekday d"


section \<open>The parsed restriction\<close>

record date_range =
  start_day :: int
  start_month :: int
  end_day :: int
  end_month :: int

text \<open>The dictionary that \<open>parse_restriction\<close> returns, one field per key.\<close>

record restriction =
  rtype :: "string option"
  is_restricted :: bool
  time_ranges :: "(string \<times> string) list"
  days :: "string list"
  date_ranges :: "date_range list"
  special :: "string option"
  all_time :: bool
  raw_description :: "string option"


section \<open>is_parking_allowed\<close>

text \<open>Hours and minutes of a time string such as \<open>09h30\<close>, as the loop body reads them.\<close>

definition hours_minutes :: "string \<Rightarrow> error + (int \<times> int)" where
  "hours_minutes s =
     (case index (split_on CHR ''h'' s) 0 of
        Inl e \<Rightarrow> Inl e
      | Inr p0 \<Rightarrow>
          (case py_int p0 of
             Inl e \<Rightarrow> Inl e
           | Inr hours \<Rightarrow>
               (if CHR ''h'' \<in> set s \<and> length (split_on CHR ''h'' s ! 1) > 0 then
                  (case py_int (split_on CHR ''h'' s ! 1) of
                     Inl e \<Rightarrow> Inl e
                   | Inr minutes \<Rightarrow> Inr (hours, minutes))
                else Inr (hours, 0))))"

text \<open>Both ends of one window as times of day.\<close>

definition window_times :: "string \<times> string \<Rightarrow> error + (dtime \<times> dtime)" where
  "window_times w =
     (case hours_minutes (fst w) of
        Inl e \<Rightarrow> Inl e
      | Inr (sh, sm) \<Rightarrow>
          (case hours_minutes (snd w) of
             Inl e \<Rightarrow> Inl e
           | Inr (eh, em) \<Rightarrow>
               (case dt_time sh sm of
                  Inl e \<Rightarrow> Inl e
                | Inr st \<Rightarrow>
                    (case dt_time eh em of
                       Inl e \<Rightarrow> Inl e
                     | Inr en \<Rightarrow> Inr (st, en)))))"

text \<open>The loop over the time ranges: it stops at the first window that holds the time.\<close>

fun time_loop :: "(string \<times> string) list \<Rightarrow> dtime \<Rightarrow> error + bool" where
  "time_loop [] t = Inr False"
| "time_loop (w # ws) t =
     (case window_times w of
        Inl e \<Rightarrow> Inl e
      | Inr (st, en) \<Rightarrow>
          if time_le st t \<and> time_le t en then Inr True else time_loop ws t)"

text \<open>The test of one date range in the loop over the date ranges.\<close>

definition date_range_test :: "date_range \<Rightarrow> int \<Rightarrow> int \<Rightarrow> bool" where
  "date_range_test r current_month current_day_of_month =
     (if start_month r > end_month r then
        ((current_month > start_month r \<or>
          (current_month = start_month r \<and> current_day_of_month \<ge> start_day r)) \<or>
         (current_month < end_month r \<or>
          (current_month = end_month r \<and> current_day_of_month \<le> end_day r)))
      else
        ((current_month > start_month r \<or>
          (current_month = start_month r \<and> current_day_of_month \<ge> start_day r)) \<and>
         (current_month < end_month r \<or>
          (current_month = end_month r \<and> current_day_of_month \<le> end_day r))))"

fun date_loop :: "date_range list \<Rightarrow> int \<Rightarrow> int \<Rightarrow> bool" where
  "date_loop [] m d = False"
| "date_loop (r # rs) m d = (if date_range_test r m d then True else date_loop rs m d)"

definition is_parking_allowed :: "restriction \<Rightarrow> datetime \<Rightarrow> error + bool" where
  "is_parking_allowed parsed_restriction current_datetime =
     (let current_day = strftime_A current_datetime;
          current_time = time_of current_datetime;
          current_month = int (month current_datetime);
          current_day_of_month = int (day current_datetime)
      in
        if all_time parsed_restriction then Inr False
        else
          (let day_match = (length (days parsed_restriction) = 0
                            \<or> current_day \<in> set (days parsed_restriction))
           in
             case (if time_ranges parsed_restriction \<noteq> []
                   then time_loop (time_ranges parsed_restriction) current_time
                   else Inr True) of
               Inl e \<Rightarrow> Inl e
             | Inr time_match \<Rightarrow>
                 (let date_match =
                        (if date_ranges parsed_restriction \<noteq> []
                         then date_loop (date_ranges parsed_restriction)
                                current_month current_day_of_month
                         else True);
                      restriction_applies = (day_match \<and> time_match \<and> date_match)
                  in Inr (\<not> (restriction_applies \<and> is_restricted parsed_restriction)))))"


section \<open>The gates, as the evaluator's contract words them\<close>

definition day_gate :: "restriction \<Rightarrow> datetime \<Rightarrow> bool" where
  "day_gate r at = (days r = [] \<or> strftime_A at \<in> set (days r))"

definition valid_window :: "string \<times> string \<Rightarrow> bool" where
  "valid_window w = (case window_times w of Inl e \<Rightarrow> False | Inr p \<Rightarrow> True)"

text \<open>A time of day lies in a window: start and end included.\<close>

definition in_window :: "string \<times> string \<Rightarrow> dtime \<Rightarrow> bool" where
  "in_window w t = (case window_times w of
                      Inl e \<Rightarrow> False
                    | Inr (st, en) \<Rightarrow> time_le st t \<and> time_le t en)"

definition time_gate :: "restriction \<Rightarrow> datetime \<Rightarrow> bool" where
  "time_gate r at = (time_ranges r = [] \<or> (\<exists>w \<in> set (time_ranges r). in_window w (time_of at)))"

text \<open>Month and day pairs in calendar order.\<close>

fun md_le :: "int \<times> int \<Rightarrow> int \<times> int \<Rightarrow> bool" where
  "md_le (m, d) (m', d') = (m < m' \<or> (m = m' \<and> d \<le> d'))"

definition md_lt :: "int \<times> int \<Rightarrow> int \<times> int \<Rightarrow> bool" where
  "md_lt a b = (md_le a b \<and> a \<noteq> b)"

definition on_or_after_start :: "date_range \<Rightarrow> int \<times> int \<Rightarrow> bool" where
  "on_or_after_start r md = md_le (start_month r, start_day r) md"

definition on_or_before_end :: "date_range \<Rightarrow> int \<times> int \<Rightarrow> bool" where
  "on_or_before_end r md = md_le md (end_month r, end_day r)"

definition date_gate :: "restriction \<Rightarrow> datetime \<Rightarrow> bool" where
  "date_gate r at =
     (date_ranges r = [] \<or>
      (\<exists>d \<in> set (date_ranges r). date_range_test d (int (month at)) (int (day at))))"

definition restriction_applies :: "restriction \<Rightarrow> datetime \<Rightarrow> bool" where
  "restriction_applies r at = (day_gate r at \<and> time_gate r at \<and> date_gate r at)"

text \<open>A window whose start is strictly later than its end.\<close>

definition start_after_end :: "string \<times> string \<Rightarrow> bool" where
  "start_after_end w = (case window_times w of
                          Inl e \<Rightarrow> False
                        | Inr (st, en) \<Rightarrow> time_le en st \<and> st \<noteq> en)"

text \<open>Sample rules and instants.\<close>

definition at_time :: "nat \<Rightarrow> nat \<Rightarrow> nat \<Rightarrow> nat \<Rightarrow> nat \<Rightarrow> datetime" where
  "at_time y mo d h mi =
     \<lparr>year = y, month = mo, day = d, hour = h, minute = mi, second = 0, microsecond = 0\<rparr>"

definition empty_rule :: restriction where
  "empty_rule = \<lparr>rtype = None, is_restricted = False, time_ranges = [], days = [],
                 date_ranges = [], special = None, all_time = False, raw_description = None\<rparr>"


definition winter_range :: date_range where
  "winter_range = \<lparr>start_day = 15, start_month = 11, end_day = 15, end_month = 3\<rparr>"

definition summer_range :: date_range where
  "summer_range = \<lparr>start_day = 1, start_month = 4, end_day = 1, end_month = 11\<rparr>"

definition overnight_rule :: restriction where
  "overnight_rule = empty_rule\<lparr>rtype := Some ''P'', is_restricted := True,
     time_ranges := [(''22h00'', ''06h00'')]\<rparr>"

section \<open>Properties of the evaluator\<close>

lemma time_le_trans: "time_le a b \<Longrightarrow> time_le b c \<Longrightarrow> time_le a c"
  by (cases a; cases b; cases c) auto

lemma time_le_antisym: "time_le a b \<Longrightarrow> time_le b a \<Longrightarrow> a = b"
  by (cases a; cases b) auto

lemma time_loop_exists:
  "\<forall>w \<in> set ws. valid_window w \<Longrightarrow> time_loop ws t = Inr (\<exists>w \<in> set ws. in_window w t)"
proof (induction ws)
  case Nil
  then show ?case by simp
next
  case (Cons w ws)
  from Cons.prems have "valid_window w" by simp
  then obtain st en where w: "window_times w = Inr (st, en)"
    by (cases "window_times w") (auto simp: valid_window_def)
  from Cons.prems have "\<forall>w \<in> set ws. valid_window w" by simp
  then have ih: "time_loop ws t = Inr (\<exists>w \<in> set ws. in_window w t)" by (rule Cons.IH)
  have iw: "in_window w t = (time_le st t \<and> time_le t en)"
    by (simp add: in_window_def w)
  show ?case
    using w ih iw by auto
qed

lemma date_loop_exists: "date_loop rs m d = (\<exists>r \<in> set rs. date_range_test r m d)"
  by (induction rs) auto


lemma allowed_gates:
  assumes "\<not> all_time r" and "\<forall>w \<in> set (time_ranges r). valid_window w"
  shows "is_parking_allowed r at = Inr (\<not> (restriction_applies r at \<and> is_restricted r))"
proof -
  have t: "(if time_ranges r \<noteq> [] then time_loop (time_ranges r) (time_of at) else Inr True)
           = Inr (time_gate r at)"
    using time_loop_exists [OF assms(2), of "time_of at"] by (simp add: time_gate_def)
  have d: "(if date_ranges r \<noteq> [] then date_loop (date_ranges r) (int (month at)) (int (day at)) else True)
           = date_gate r at"
    by (simp add: date_gate_def date_loop_exists)
  show ?thesis
    unfolding is_parking_allowed_def Let_def t d
    using assms(1) by (simp add: restriction_applies_def day_gate_def)
qed




lemmas text_eval = hours_minutes_def index_def py_int_def strip_int_def is_int_space_def
  code_def unsigned_int_def is_digit_def digit_val_def window_times_def dt_time_def



text \<open>
  Claim C3. A date range whose start month is greater than its end month matches a (month, day)
  exactly when the date is on or after the start or on or before the end, and it matches no date
  strictly between the end and the start. A range whose start month is at most its end month
  matches exactly when the date is on or after the start and on or before the end. The loop over
  the ranges finds a match exactly when some range matches.
\<close>

theorem date_range_semantics:
  "(start_month r > end_month r \<longrightarrow>
      date_range_test r m d = (on_or_after_start r (m, d) \<or> on_or_before_end r (m, d))) \<and>
   (start_month r > end_month r \<and> md_lt (end_month r, end_day r) (m, d)
      \<and> md_lt (m, d) (start_month r, start_day r) \<longrightarrow> \<not> date_range_test r m d) \<and>
   (start_month r \<le> end_month r \<longrightarrow>
      date_range_test r m d = (on_or_after_start r (m, d) \<and> on_or_before_end r (m, d))) \<and>
   date_loop rs m d = (\<exists>r \<in> set rs. date_range_test r m d)"
proof (intro conjI impI)
  show "date_loop rs m d = (\<exists>r \<in> set rs. date_range_test r m d)"
    by (rule date_loop_exists)
qed (auto simp: date_range_test_def on_or_after_start_def on_or_before_end_def md_lt_def)

text \<open>
  15 November to 15 March holds 1 December, 1 February and both boundary days, and neither 1 July
  nor 16 March; 1 April to 1 November holds 10 October and not 10 January.
\<close>

theorem date_range_semantics_witness:
  "date_range_test winter_range 12 1 \<and> date_range_test winter_range 2 1 \<and>
   date_range_test winter_range 11 15 \<and> date_range_test winter_range 3 15 \<and>
   \<not> date_range_test winter_range 7 1 \<and> \<not> date_range_test winter_range 3 16 \<and>
   date_range_test summer_range 10 10 \<and> \<not> date_range_test summer_range 1 10 \<and>
   date_loop [summer_range, winter_range] 12 1"
  using date_range_semantics [of winter_range 12 1 "[]"]
    date_range_semantics [of winter_range 2 1 "[]"]
    date_range_semantics [of winter_range 11 15 "[]"]
    date_range_semantics [of winter_range 3 15 "[]"]
    date_range_semantics [of winter_range 7 1 "[]"]
    date_range_semantics [of winter_range 3 16 "[]"]
    date_range_semantics [of summer_range 10 10 "[]"]
    date_range_semantics [of summer_range 1 10 "[]"]
    date_range_semantics [of winter_range 12 1 "[summer_range, winter_range]"]
  by (simp add: winter_range_def summer_range_def on_or_after_start_def on_or_before_end_def md_lt_def)

lemma no_match_start_after_end:
  "\<forall>w \<in> set ws. start_after_end w \<Longrightarrow> time_loop ws t = Inr False"
proof (induction ws)
  case Nil
  show ?case by simp
next
  case (Cons w ws)
  from Cons.prems have "start_after_end w" by simp
  then obtain p where p: "window_times w = Inr p"
    by (cases "window_times w") (simp_all add: start_after_end_def)
  obtain st en where se: "p = (st, en)" by (cases p)
  have w: "window_times w = Inr (st, en)" using p se by simp
  have o: "time_le en st" "st \<noteq> en"
    using \<open>start_after_end w\<close> by (simp_all add: start_after_end_def w)
  have "\<not> (time_le st t \<and> time_le t en)"
  proof
    assume "time_le st t \<and> time_le t en"
    then have "time_le st en" using time_le_trans by blast
    with o show False using time_le_antisym by blast
  qed
  moreover from Cons have "time_loop ws t = Inr False" by simp
  ultimately show ?case using w by simp
qed

text \<open>
  Claim C10. A window whose start is strictly later than its end holds no time of day. A rule
  whose windows are all of that kind has a time gate that is false at every instant, and unless
  it is restricted at all times, parking is allowed: time windows do not wrap around midnight.
\<close>

theorem overnight_window_never_matches:
  assumes "time_ranges r \<noteq> []" and "\<forall>w \<in> set (time_ranges r). start_after_end w"
  shows "(\<forall>w \<in> set (time_ranges r). \<not> in_window w (time_of at)) \<and>
         \<not> time_gate r at \<and>
         time_loop (time_ranges r) (time_of at) = Inr False \<and>
         (\<not> all_time r \<longrightarrow> is_parking_allowed r at = Inr True)"
proof -
  have l: "time_loop (time_ranges r) (time_of at) = Inr False"
    using assms(2) by (rule no_match_start_after_end)
  have v: "\<forall>w \<in> set (time_ranges r). valid_window w"
    using assms(2) by (auto simp: start_after_end_def valid_window_def split: sum.splits)
  from time_loop_exists [OF v, of "time_of at"] l
  have n: "\<forall>w \<in> set (time_ranges r). \<not> in_window w (time_of at)" by simp
  with assms(1) have g: "\<not> time_gate r at" by (simp add: time_gate_def)
  have "\<not> all_time r \<longrightarrow> is_parking_allowed r at = Inr True"
    using allowed_gates [OF _ v, of at] g by (simp add: restriction_applies_def)
  with n g l show ?thesis by blast
qed

lemma w2: "window_times (''22h00'', ''06h00'') = Inr ((22, 0, 0, 0), (6, 0, 0, 0))"
  by (simp add: text_eval)

text \<open>The window 22h00-06h00 at 23h30 and at 3h00.\<close>

theorem overnight_window_never_matches_witness:
  "time_ranges overnight_rule \<noteq> [] \<and>
   start_after_end (''22h00'', ''06h00'') \<and>
   \<not> time_gate overnight_rule (at_time 2023 10 10 23 30) \<and>
   is_parking_allowed overnight_rule (at_time 2023 10 10 23 30) = Inr True \<and>
   is_parking_allowed overnight_rule (at_time 2023 10 10 3 0) = Inr True"
proof -
  have a: "time_ranges overnight_rule \<noteq> []" by (simp add: overnight_rule_def)
  have b: "\<forall>w \<in> set (time_ranges overnight_rule). start_after_end w"
    by (simp add: overnight_rule_def start_after_end_def w2)
  have c: "\<not> all_time overnight_rule" by (simp add: overnight_rule_def empty_rule_def)
  show ?thesis
    using a b c overnight_window_never_matches [OF a b, of "at_time 2023 10 10 23 30"]
      overnight_window_never_matches [OF a b, of "at_time 2023 10 10 3 0"]
    by (simp add: overnight_rule_def)
qed

end
